theory Spec2Isabelle
  imports Main
begin

section \<open>The global UI-state store of app/contexts/GlobalProvider.tsx\<close>

subsection \<open>Data model\<close>

text \<open>
  A value that may be \<^verbatim>\<open>undefined\<close>, \<^verbatim>\<open>null\<close> or present, as
  \<^verbatim>\<open>Customer | null | undefined\<close> in the signature of
  \<^verbatim>\<open>setPreviewModeCustomer\<close>.
\<close>

datatype 'c nullable = Undefined | Null | Present 'c

text \<open>
  The modal slot \<^verbatim>\<open>{children, props}\<close>. \<open>children = None\<close> is the JavaScript
  \<^verbatim>\<open>null\<close>; every other renderable content is \<open>Some n\<close>. The props object is a
  finite mapping from property names to values.
\<close>

record ('n, 'v) Modal =
  children :: "'n option"
  props :: "string \<rightharpoonup> 'v"

text \<open>
  The module-level object \<^verbatim>\<open>globalState\<close> has nine fields; the state handed to
  \<^verbatim>\<open>useReducer\<close> spreads it and adds \<^verbatim>\<open>settings\<close>,
  \<^verbatim>\<open>isPreviewModeEnabled\<close> and \<^verbatim>\<open>isCartReady\<close>. The record extension
  follows that construction. The types of the customer record and of the site settings
  come from packages outside the file and stay type parameters.
\<close>

record ('n, 'v, 'c) GlobalDefaults =
  cartOpen :: bool
  desktopMenuOpen :: bool
  iframesHidden :: bool
  mobileMenuOpen :: bool
  modal :: "('n, 'v) Modal"
  promobarOpen :: bool
  searchOpen :: bool
  previewModeCustomer :: "'c nullable"
  isHydrated :: bool

record ('n, 'v, 'c, 's) GlobalState = "('n, 'v, 'c) GlobalDefaults" +
  settings :: 's
  isPreviewModeEnabled :: bool
  isCartReady :: bool

text \<open>
  Modelled from the spec: the type \<^verbatim>\<open>Action\<close> of \<^verbatim>\<open>~/lib/types\<close> is not among
  the sources. An action is an object with a \<^verbatim>\<open>type\<close> string and a payload; the
  payload shapes are those the sixteen action creators of the file build (section 4.1 of
  the specification lists the same argument types): none, a boolean, the pair
  \<^verbatim>\<open>{children, props}\<close> with \<^verbatim>\<open>props\<close> possibly absent, or a customer value.
\<close>

datatype ('n, 'v, 'c) payload =
    No_payload
  | Bool_payload bool
  | Modal_payload "'n option" "(string \<rightharpoonup> 'v) option"
  | Customer_payload "'c nullable"

record ('n, 'v, 'c) Action =
  type :: string
  payload :: "('n, 'v, 'c) payload"

text \<open>
  \<open>Error msg\<close> is the \<^verbatim>\<open>new Error(msg)\<close> thrown by the default branch of the
  reducer. \<open>TypeError\<close> is what JavaScript throws when the \<^verbatim>\<open>OPEN_MODAL\<close> branch
  reads \<^verbatim>\<open>action.payload.children\<close> of an action without payload.
  \<open>Payload_type_error\<close> marks the remaining actions whose payload does not have the
  shape that the branch for its kind reads. The source has no check there and would store
  the ill-shaped value in the state; the typed state record has no place for such a value,
  so the model gives these actions no successor state. No statement below relies on
  what the model returns for them, and the action creators never build one.
\<close>

datatype error = Error string | TypeError | Payload_type_error

subsection \<open>The initial state\<close>

definition cleared_modal :: "('n, 'v) Modal" where
  "cleared_modal = \<lparr>children = None, props = Map.empty\<rparr>"

definition globalState :: "('n, 'v, 'c) GlobalDefaults" where
  "globalState =
     \<lparr>cartOpen = False,
      desktopMenuOpen = False,
      iframesHidden = False,
      mobileMenuOpen = False,
      modal = cleared_modal,
      promobarOpen = True,
      searchOpen = False,
      previewModeCustomer = Undefined,
      isHydrated = False\<rparr>"

text \<open>
  \<^verbatim>\<open>cart.status === 'idle'\<close>, with the status of the cart hook as a string.
\<close>

definition cartIsIdle :: "string \<Rightarrow> bool" where
  "cartIsIdle status = (status = ''idle'')"

text \<open>
  The second argument of \<^verbatim>\<open>useReducer\<close>. The site settings read through the
  optional chain and the preview-mode flag of the root loader are parameters, as is the
  status reported by the cart hook.
\<close>

definition initial_state :: "'s \<Rightarrow> bool \<Rightarrow> string \<Rightarrow> ('n, 'v, 'c, 's) GlobalState" where
  "initial_state siteSettings previewModeEnabled status =
     GlobalDefaults.extend globalState
       (GlobalState.fields siteSettings previewModeEnabled (cartIsIdle status))"

subsection \<open>The reducer\<close>

text \<open>
  The object spread \<^verbatim>\<open>{...action.payload.props}\<close>: an absent props argument
  spreads to the empty object, a mapping to a copy with the same entries.
\<close>

definition spread_props :: "(string \<rightharpoonup> 'v) option \<Rightarrow> (string \<rightharpoonup> 'v)" where
  "spread_props p = (case p of None \<Rightarrow> Map.empty | Some m \<Rightarrow> m)"

definition invalid_action_message :: "string \<Rightarrow> string" where
  "invalid_action_message t = ''Invalid Context action of type: '' @ t"

definition reducer ::
  "('n, 'v, 'c, 's) GlobalState \<Rightarrow> ('n, 'v, 'c) Action \<Rightarrow> error + ('n, 'v, 'c, 's) GlobalState"
where
  "reducer state action =
    (if type action = ''OPEN_CART'' then
       Inr (state\<lparr>cartOpen := True, desktopMenuOpen := False, mobileMenuOpen := False,
                  modal := cleared_modal, searchOpen := False\<rparr>)
     else if type action = ''CLOSE_CART'' then
       Inr (state\<lparr>cartOpen := False\<rparr>)
     else if type action = ''OPEN_DESKTOP_MENU'' then
       Inr (state\<lparr>cartOpen := False, desktopMenuOpen := True, mobileMenuOpen := False,
                  modal := cleared_modal, searchOpen := False\<rparr>)
     else if type action = ''CLOSE_DESKTOP_MENU'' then
       Inr (state\<lparr>desktopMenuOpen := False\<rparr>)
     else if type action = ''OPEN_MOBILE_MENU'' then
       Inr (state\<lparr>cartOpen := False, desktopMenuOpen := False, mobileMenuOpen := True,
                  modal := cleared_modal, searchOpen := False\<rparr>)
     else if type action = ''CLOSE_MOBILE_MENU'' then
       Inr (state\<lparr>mobileMenuOpen := False\<rparr>)
     else if type action = ''OPEN_MODAL'' then
       (case payload action of
          Modal_payload c p \<Rightarrow>
            Inr (state\<lparr>cartOpen := False, desktopMenuOpen := False, mobileMenuOpen := False,
                       modal := \<lparr>children = c, props = spread_props p\<rparr>,
                       searchOpen := False\<rparr>)
        | No_payload \<Rightarrow> Inl TypeError
        | _ \<Rightarrow> Inl Payload_type_error)
     else if type action = ''CLOSE_MODAL'' then
       Inr (state\<lparr>modal := cleared_modal\<rparr>)
     else if type action = ''TOGGLE_PROMOBAR'' then
       (case payload action of
          Bool_payload b \<Rightarrow> Inr (state\<lparr>promobarOpen := b\<rparr>)
        | _ \<Rightarrow> Inl Payload_type_error)
     else if type action = ''TOGGLE_IFRAMES_HIDDEN'' then
       (case payload action of
          Bool_payload b \<Rightarrow> Inr (state\<lparr>iframesHidden := b\<rparr>)
        | _ \<Rightarrow> Inl Payload_type_error)
     else if type action = ''OPEN_SEARCH'' then
       Inr (state\<lparr>cartOpen := False, desktopMenuOpen := False, mobileMenuOpen := False,
                  modal := cleared_modal, searchOpen := True\<rparr>)
     else if type action = ''CLOSE_SEARCH'' then
       Inr (state\<lparr>searchOpen := False\<rparr>)
     else if type action = ''CLOSE_ALL'' then
       Inr (state\<lparr>cartOpen := False, desktopMenuOpen := False, mobileMenuOpen := False,
                  modal := cleared_modal, searchOpen := False\<rparr>)
     else if type action = ''SET_PREVIEW_MODE_CUSTOMER'' then
       (case payload action of
          Customer_payload c \<Rightarrow> Inr (state\<lparr>previewModeCustomer := c\<rparr>)
        | _ \<Rightarrow> Inl Payload_type_error)
     else if type action = ''SET_IS_CART_READY'' then
       (case payload action of
          Bool_payload b \<Rightarrow> Inr (state\<lparr>isCartReady := b\<rparr>)
        | _ \<Rightarrow> Inl Payload_type_error)
     else if type action = ''SET_IS_HYDRATED'' then
       (case payload action of
          Bool_payload b \<Rightarrow> Inr (state\<lparr>isHydrated := b\<rparr>)
        | _ \<Rightarrow> Inl Payload_type_error)
     else Inl (Error (invalid_action_message (type action))))"

subsection \<open>Action creators and dispatch\<close>

text \<open>
  The table built by \<^verbatim>\<open>actions(dispatch)\<close>: each operation dispatches one action
  object; the definitions below give that object.
\<close>

definition openCart :: "('n, 'v, 'c) Action" where
  "openCart = \<lparr>type = ''OPEN_CART'', payload = No_payload\<rparr>"

definition closeCart :: "('n, 'v, 'c) Action" where
  "closeCart = \<lparr>type = ''CLOSE_CART'', payload = No_payload\<rparr>"





definition openModal :: "'n option \<Rightarrow> (string \<rightharpoonup> 'v) option \<Rightarrow> ('n, 'v, 'c) Action" where
  "openModal children' props' = \<lparr>type = ''OPEN_MODAL'', payload = Modal_payload children' props'\<rparr>"

definition closeModal :: "('n, 'v, 'c) Action" where
  "closeModal = \<lparr>type = ''CLOSE_MODAL'', payload = No_payload\<rparr>"

definition togglePromobar :: "bool \<Rightarrow> ('n, 'v, 'c) Action" where
  "togglePromobar isOpen = \<lparr>type = ''TOGGLE_PROMOBAR'', payload = Bool_payload isOpen\<rparr>"


definition openSearch :: "('n, 'v, 'c) Action" where
  "openSearch = \<lparr>type = ''OPEN_SEARCH'', payload = No_payload\<rparr>"

definition closeSearch :: "('n, 'v, 'c) Action" where
  "closeSearch = \<lparr>type = ''CLOSE_SEARCH'', payload = No_payload\<rparr>"

definition closeAll :: "('n, 'v, 'c) Action" where
  "closeAll = \<lparr>type = ''CLOSE_ALL'', payload = No_payload\<rparr>"


definition setIsCartReady :: "bool \<Rightarrow> ('n, 'v, 'c) Action" where
  "setIsCartReady isReady = \<lparr>type = ''SET_IS_CART_READY'', payload = Bool_payload isReady\<rparr>"

definition setIsHydrated :: "bool \<Rightarrow> ('n, 'v, 'c) Action" where
  "setIsHydrated isHydrated' = \<lparr>type = ''SET_IS_HYDRATED'', payload = Bool_payload isHydrated'\<rparr>"

text \<open>The case labels of the reducer's switch, in source order.\<close>

definition action_kinds :: "string list" where
  "action_kinds =
     [''OPEN_CART'', ''CLOSE_CART'', ''OPEN_DESKTOP_MENU'', ''CLOSE_DESKTOP_MENU'',
      ''OPEN_MOBILE_MENU'', ''CLOSE_MOBILE_MENU'', ''OPEN_MODAL'', ''CLOSE_MODAL'',
      ''TOGGLE_PROMOBAR'', ''TOGGLE_IFRAMES_HIDDEN'', ''OPEN_SEARCH'', ''CLOSE_SEARCH'',
      ''CLOSE_ALL'', ''SET_PREVIEW_MODE_CUSTOMER'', ''SET_IS_CART_READY'',
      ''SET_IS_HYDRATED'']"

text \<open>
  The payload of an action has the shape that the action creator of its kind gives it.
  Kinds whose branch never reads the payload accept any.
\<close>

definition is_bool_payload :: "('n, 'v, 'c) payload \<Rightarrow> bool" where
  "is_bool_payload p = (case p of Bool_payload _ \<Rightarrow> True | _ \<Rightarrow> False)"

definition is_modal_payload :: "('n, 'v, 'c) payload \<Rightarrow> bool" where
  "is_modal_payload p = (case p of Modal_payload _ _ \<Rightarrow> True | _ \<Rightarrow> False)"

definition is_customer_payload :: "('n, 'v, 'c) payload \<Rightarrow> bool" where
  "is_customer_payload p = (case p of Customer_payload _ \<Rightarrow> True | _ \<Rightarrow> False)"

definition payload_ok :: "('n, 'v, 'c) Action \<Rightarrow> bool" where
  "payload_ok a =
     (if type a = ''OPEN_MODAL'' then is_modal_payload (payload a)
      else if type a = ''TOGGLE_PROMOBAR'' \<or> type a = ''TOGGLE_IFRAMES_HIDDEN'' \<or>
              type a = ''SET_IS_CART_READY'' \<or> type a = ''SET_IS_HYDRATED''
        then is_bool_payload (payload a)
      else if type a = ''SET_PREVIEW_MODE_CUSTOMER'' then is_customer_payload (payload a)
      else True)"

text \<open>
  A state-passing stand-in for the \<^verbatim>\<open>dispatch\<close> that React's
  \<^verbatim>\<open>useReducer(reducer, ...)\<close> returns (React is not part of the sources): the
  stored state is replaced by what the reducer returns for it and the action. React
  itself calls the reducer while it renders the component again, so a throw of the
  reducer surfaces there and not at the call of \<^verbatim>\<open>dispatch\<close>; the model only
  records that a call that throws yields no state to store. The statements below use
  the case in which the reducer returns.
\<close>

definition dispatch ::
  "('n, 'v, 'c, 's) GlobalState \<Rightarrow> ('n, 'v, 'c) Action \<Rightarrow> error option \<times> ('n, 'v, 'c, 's) GlobalState"
where
  "dispatch state action =
     (case reducer state action of
        Inl e \<Rightarrow> (Some e, state)
      | Inr state' \<Rightarrow> (None, state'))"

text \<open>
  The states reached by dispatching a list of actions one after the other, one entry
  per reducer step that returned; the first throw ends the run.
\<close>

fun reducer_steps ::
  "('n, 'v, 'c, 's) GlobalState \<Rightarrow> ('n, 'v, 'c) Action list \<Rightarrow> ('n, 'v, 'c, 's) GlobalState list"
where
  "reducer_steps state [] = []"
| "reducer_steps state (a # as) =
     (case reducer state a of
        Inl e \<Rightarrow> []
      | Inr state' \<Rightarrow> state' # reducer_steps state' as)"

subsection \<open>Panel indicators\<close>

definition modal_has_content :: "('n, 'v, 'c, 's) GlobalState \<Rightarrow> bool" where
  "modal_has_content state = (case children (modal state) of None \<Rightarrow> False | Some _ \<Rightarrow> True)"

definition panel_indicators :: "('n, 'v, 'c, 's) GlobalState \<Rightarrow> bool list" where
  "panel_indicators state =
     [cartOpen state, desktopMenuOpen state, mobileMenuOpen state, searchOpen state,
      modal_has_content state]"

definition active_panels :: "('n, 'v, 'c, 's) GlobalState \<Rightarrow> nat" where
  "active_panels state = length (filter (\<lambda>b. b) (panel_indicators state))"

text \<open>The fields that no panel action writes.\<close>

definition non_panel_fields ::
  "('n, 'v, 'c, 's) GlobalState \<Rightarrow> bool \<times> bool \<times> 'c nullable \<times> bool \<times> 's \<times> bool \<times> bool"
where
  "non_panel_fields state =
     (iframesHidden state, promobarOpen state, previewModeCustomer state, isHydrated state,
      settings state, isPreviewModeEnabled state, isCartReady state)"

subsection \<open>The effects of the provider component\<close>

text \<open>
  \<^verbatim>\<open>useEffect(f, deps)\<close> runs \<open>f\<close> after the first render and after every later
  render whose dependency array differs from that of the render before. \<open>None\<close> is
  the component before its first render.
\<close>

definition deps_changed :: "bool list option \<Rightarrow> bool list \<Rightarrow> bool" where
  "deps_changed prev deps = (case prev of None \<Rightarrow> True | Some d \<Rightarrow> d \<noteq> deps)"

definition iframesShouldBeHidden :: "('n, 'v, 'c, 's) GlobalState \<Rightarrow> bool" where
  "iframesShouldBeHidden state = (iframesHidden state \<or> mobileMenuOpen state \<or> searchOpen state)"

text \<open>
  The hydration effect, with the empty dependency array. The body yields the actions it
  dispatches; the wrapper also yields the dependency array React keeps for the next
  render.
\<close>

definition hydration_effect :: "('n, 'v, 'c, 's) GlobalState \<Rightarrow> ('n, 'v, 'c) Action list" where
  "hydration_effect state = (if isHydrated state then [] else [setIsHydrated True])"

definition run_hydration_effect ::
  "bool list option \<Rightarrow> ('n, 'v, 'c, 's) GlobalState \<Rightarrow> ('n, 'v, 'c) Action list \<times> bool list option"
where
  "run_hydration_effect prev state =
     (if deps_changed prev [] then (hydration_effect state, Some [])
      else ([], Some []))"

text \<open>
  The cart-ready effect either dispatches at once or hands a callback to
  \<^verbatim>\<open>setTimeout\<close> with the delay in milliseconds.
\<close>

datatype 'a scheduled = Dispatch_now 'a | Set_timeout 'a nat

definition cart_ready_effect ::
  "bool \<Rightarrow> ('n, 'v, 'c, 's) GlobalState \<Rightarrow> ('n, 'v, 'c) Action scheduled"
where
  "cart_ready_effect idle state =
     (if idle \<and> \<not> isCartReady state then Dispatch_now (setIsCartReady True)
      else Set_timeout (setIsCartReady True) 1000)"

text \<open>
  The provider with a logical clock in milliseconds and the callbacks handed to
  \<^verbatim>\<open>setTimeout\<close> that have not run yet, each with the time at which it is due
  and the action it dispatches, in the order in which they were scheduled. The queue
  stands for the timer of the host (not part of the sources): a callback scheduled at
  time \<open>t\<close> with delay \<open>d\<close> is due at \<open>t + d\<close> and runs when the clock reaches that
  time. All callbacks of the file use the same delay, so the scheduling order is the
  order in which they are due.
\<close>

record ('n, 'v, 'c, 's) provider =
  store :: "('n, 'v, 'c, 's) GlobalState"
  now :: nat
  timers :: "(nat \<times> ('n, 'v, 'c) Action) list"

definition perform ::
  "('n, 'v, 'c) Action scheduled \<Rightarrow> ('n, 'v, 'c, 's) provider \<Rightarrow> ('n, 'v, 'c, 's) provider"
where
  "perform cmd p =
     (case cmd of
        Dispatch_now a \<Rightarrow> p\<lparr>store := snd (dispatch (store p) a)\<rparr>
      | Set_timeout a delay \<Rightarrow> p\<lparr>timers := timers p @ [(now p + delay, a)]\<rparr>)"

text \<open>
  One run of the cart-ready effect; the body reads \<^verbatim>\<open>state.isCartReady\<close> of the
  render it belongs to.
\<close>

definition run_cart_ready_effect ::
  "bool \<Rightarrow> ('n, 'v, 'c, 's) provider \<Rightarrow> ('n, 'v, 'c, 's) provider"
where
  "run_cart_ready_effect idle p = perform (cart_ready_effect idle (store p)) p"

fun fire ::
  "(nat \<times> ('n, 'v, 'c) Action) list \<Rightarrow> ('n, 'v, 'c, 's) GlobalState \<Rightarrow> ('n, 'v, 'c, 's) GlobalState"
where
  "fire [] state = state"
| "fire ((due, a) # ts) state = fire ts (snd (dispatch state a))"

text \<open>The clock moves on to \<open>t\<close>: the callbacks due by then run, the others stay.\<close>

definition advance :: "nat \<Rightarrow> ('n, 'v, 'c, 's) provider \<Rightarrow> ('n, 'v, 'c, 's) provider" where
  "advance t p =
     \<lparr>store = fire (filter (\<lambda>(due, a). due \<le> t) (timers p)) (store p),
      now = max (now p) t,
      timers = filter (\<lambda>(due, a). \<not> due \<le> t) (timers p)\<rparr>"

text \<open>
  The document as the list of its elements in document order; an element has a local
  name and a class list. \<^verbatim>\<open>classList.add\<close> appends a token that is not yet there,
  \<^verbatim>\<open>classList.remove\<close> deletes it.
\<close>

record element =
  localName :: string
  classList :: "string list"

definition classList_add :: "string \<Rightarrow> string list \<Rightarrow> string list" where
  "classList_add token cl = (if token \<in> set cl then cl else cl @ [token])"

definition classList_remove :: "string \<Rightarrow> string list \<Rightarrow> string list" where
  "classList_remove token cl = filter (\<lambda>t. t \<noteq> token) cl"

definition is_iframe :: "element \<Rightarrow> bool" where
  "is_iframe e = (localName e = ''iframe'')"

definition hide_iframe :: "element \<Rightarrow> element" where
  "hide_iframe e =
     (if is_iframe e then e\<lparr>classList := classList_add ''!invisible'' (classList e)\<rparr> else e)"

definition show_iframe :: "element \<Rightarrow> element" where
  "show_iframe e =
     (if is_iframe e then e\<lparr>classList := classList_remove ''!invisible'' (classList e)\<rparr> else e)"

text \<open>
  The iframe effect: \<^verbatim>\<open>querySelectorAll('iframe')\<close> selects the iframe elements of
  the document and the \<^verbatim>\<open>forEach\<close> updates the class list of each of them in
  place; the other elements are not touched.
\<close>

definition iframe_effect :: "('n, 'v, 'c, 's) GlobalState \<Rightarrow> element list \<Rightarrow> element list" where
  "iframe_effect state doc =
     (if \<not> isHydrated state then doc
      else if iframesShouldBeHidden state then map hide_iframe doc
      else map show_iframe doc)"

definition run_iframe_effect ::
  "bool list option \<Rightarrow> ('n, 'v, 'c, 's) GlobalState \<Rightarrow> element list \<Rightarrow> element list \<times> bool list option"
where
  "run_iframe_effect prev state doc =
     (if deps_changed prev [iframesShouldBeHidden state]
        then (iframe_effect state doc, Some [iframesShouldBeHidden state])
      else (doc, Some [iframesShouldBeHidden state]))"

definition hidden_marker :: "element \<Rightarrow> bool" where
  "hidden_marker e = (''!invisible'' \<in> set (classList e))"

subsection \<open>Sample values\<close>

text \<open>Concrete states, actions and a document on which the theorems below are instantiated.\<close>

type_synonym sample_state = "(string, nat, string, unit) GlobalState"
type_synonym sample_action = "(string, nat, string) Action"

definition sample_state :: sample_state where
  "sample_state = (initial_state () False ''uninitialized'')\<lparr>cartOpen := True, isHydrated := True\<rparr>"

definition sample_document :: "element list" where
  "sample_document =
     [\<lparr>localName = ''div'', classList = [''page'']\<rparr>,
      \<lparr>localName = ''iframe'', classList = []\<rparr>,
      \<lparr>localName = ''iframe'', classList = [''video'', ''!invisible'']\<rparr>]"

definition sample_provider :: "(string, nat, string, unit) provider" where
  "sample_provider =
     \<lparr>store = initial_state () False ''uninitialized'', now = 250, timers = []\<rparr>"

definition sample_search_state :: sample_state where
  "sample_search_state = sample_state\<lparr>cartOpen := False, searchOpen := True\<rparr>"

section \<open>The reducer, branch by branch\<close>

lemma reducer_OPEN_CART:
  "type a = ''OPEN_CART'' \<Longrightarrow> reducer st a =
     Inr (st\<lparr>cartOpen := True, desktopMenuOpen := False, mobileMenuOpen := False,
              modal := cleared_modal, searchOpen := False\<rparr>)"
  by (simp add: reducer_def)

lemma reducer_CLOSE_CART:
  "type a = ''CLOSE_CART'' \<Longrightarrow> reducer st a = Inr (st\<lparr>cartOpen := False\<rparr>)"
  by (simp add: reducer_def)

lemma reducer_OPEN_DESKTOP_MENU:
  "type a = ''OPEN_DESKTOP_MENU'' \<Longrightarrow> reducer st a =
     Inr (st\<lparr>cartOpen := False, desktopMenuOpen := True, mobileMenuOpen := False,
              modal := cleared_modal, searchOpen := False\<rparr>)"
  by (simp add: reducer_def)

lemma reducer_CLOSE_DESKTOP_MENU:
  "type a = ''CLOSE_DESKTOP_MENU'' \<Longrightarrow> reducer st a = Inr (st\<lparr>desktopMenuOpen := False\<rparr>)"
  by (simp add: reducer_def)

lemma reducer_OPEN_MOBILE_MENU:
  "type a = ''OPEN_MOBILE_MENU'' \<Longrightarrow> reducer st a =
     Inr (st\<lparr>cartOpen := False, desktopMenuOpen := False, mobileMenuOpen := True,
              modal := cleared_modal, searchOpen := False\<rparr>)"
  by (simp add: reducer_def)

lemma reducer_CLOSE_MOBILE_MENU:
  "type a = ''CLOSE_MOBILE_MENU'' \<Longrightarrow> reducer st a = Inr (st\<lparr>mobileMenuOpen := False\<rparr>)"
  by (simp add: reducer_def)

lemma reducer_OPEN_MODAL:
  "type a = ''OPEN_MODAL'' \<Longrightarrow> payload a = Modal_payload c p \<Longrightarrow> reducer st a =
     Inr (st\<lparr>cartOpen := False, desktopMenuOpen := False, mobileMenuOpen := False,
              modal := \<lparr>children = c, props = spread_props p\<rparr>, searchOpen := False\<rparr>)"
  by (simp add: reducer_def)

lemma reducer_CLOSE_MODAL:
  "type a = ''CLOSE_MODAL'' \<Longrightarrow> reducer st a = Inr (st\<lparr>modal := cleared_modal\<rparr>)"
  by (simp add: reducer_def)

lemma reducer_TOGGLE_PROMOBAR:
  "type a = ''TOGGLE_PROMOBAR'' \<Longrightarrow> payload a = Bool_payload b \<Longrightarrow>
     reducer st a = Inr (st\<lparr>promobarOpen := b\<rparr>)"
  by (simp add: reducer_def)

lemma reducer_TOGGLE_IFRAMES_HIDDEN:
  "type a = ''TOGGLE_IFRAMES_HIDDEN'' \<Longrightarrow> payload a = Bool_payload b \<Longrightarrow>
     reducer st a = Inr (st\<lparr>iframesHidden := b\<rparr>)"
  by (simp add: reducer_def)

lemma reducer_OPEN_SEARCH:
  "type a = ''OPEN_SEARCH'' \<Longrightarrow> reducer st a =
     Inr (st\<lparr>cartOpen := False, desktopMenuOpen := False, mobileMenuOpen := False,
              modal := cleared_modal, searchOpen := True\<rparr>)"
  by (simp add: reducer_def)

lemma reducer_CLOSE_SEARCH:
  "type a = ''CLOSE_SEARCH'' \<Longrightarrow> reducer st a = Inr (st\<lparr>searchOpen := False\<rparr>)"
  by (simp add: reducer_def)

lemma reducer_CLOSE_ALL:
  "type a = ''CLOSE_ALL'' \<Longrightarrow> reducer st a =
     Inr (st\<lparr>cartOpen := False, desktopMenuOpen := False, mobileMenuOpen := False,
              modal := cleared_modal, searchOpen := False\<rparr>)"
  by (simp add: reducer_def)

lemma reducer_SET_PREVIEW_MODE_CUSTOMER:
  "type a = ''SET_PREVIEW_MODE_CUSTOMER'' \<Longrightarrow> payload a = Customer_payload c \<Longrightarrow>
     reducer st a = Inr (st\<lparr>previewModeCustomer := c\<rparr>)"
  by (simp add: reducer_def)

lemma reducer_SET_IS_CART_READY:
  "type a = ''SET_IS_CART_READY'' \<Longrightarrow> payload a = Bool_payload b \<Longrightarrow>
     reducer st a = Inr (st\<lparr>isCartReady := b\<rparr>)"
  by (simp add: reducer_def)

lemma reducer_SET_IS_HYDRATED:
  "type a = ''SET_IS_HYDRATED'' \<Longrightarrow> payload a = Bool_payload b \<Longrightarrow>
     reducer st a = Inr (st\<lparr>isHydrated := b\<rparr>)"
  by (simp add: reducer_def)

lemma reducer_unknown:
  "type a \<notin> set action_kinds \<Longrightarrow>
     reducer st a = Inl (Error (invalid_action_message (type a)))"
  by (simp add: reducer_def action_kinds_def)

lemma reducer_bad_payload:
  "type a \<in> set action_kinds \<Longrightarrow> \<not> payload_ok a \<Longrightarrow> \<exists>e. reducer st a = Inl e"
  unfolding action_kinds_def payload_ok_def
  by (auto simp: reducer_def is_bool_payload_def is_modal_payload_def is_customer_payload_def
      split: payload.splits)

lemma setIsCartReady_sets_flag:
  "reducer st (setIsCartReady b) = Inr (st\<lparr>isCartReady := b\<rparr>)"
  by (simp add: setIsCartReady_def reducer_SET_IS_CART_READY)

lemma cart_ready_effect_idle:
  "idle \<Longrightarrow> \<not> isCartReady st \<Longrightarrow> cart_ready_effect idle st = Dispatch_now (setIsCartReady True)"
  by (simp add: cart_ready_effect_def)

lemma cart_ready_effect_fallback:
  "\<not> (idle \<and> \<not> isCartReady st) \<Longrightarrow>
     cart_ready_effect idle st = Set_timeout (setIsCartReady True) 1000"
  by (simp add: cart_ready_effect_def)

section \<open>At most one panel is open\<close>

lemmas panel_defs = active_panels_def panel_indicators_def modal_has_content_def cleared_modal_def

lemma open_step_at_most_one:
  assumes "type a = ''OPEN_CART'' \<or> type a = ''OPEN_DESKTOP_MENU'' \<or> type a = ''OPEN_MOBILE_MENU''
           \<or> type a = ''OPEN_SEARCH'' \<or> type a = ''CLOSE_ALL''"
    and "reducer st a = Inr st'"
  shows "active_panels st' \<le> 1"
  using assms
  by (auto simp: reducer_OPEN_CART reducer_OPEN_DESKTOP_MENU reducer_OPEN_MOBILE_MENU
      reducer_OPEN_SEARCH reducer_CLOSE_ALL panel_defs)

lemma payload_ok_step:
  assumes "reducer st a = Inr st'"
  shows "type a \<in> set action_kinds \<and> payload_ok a"
proof -
  have k: "type a \<in> set action_kinds"
    using assms reducer_unknown [of a st] by auto
  moreover have "payload_ok a"
    using assms k reducer_bad_payload [of a st] by auto
  ultimately show ?thesis by simp
qed

lemma open_modal_step_at_most_one:
  assumes "type a = ''OPEN_MODAL''" and "reducer st a = Inr st'"
  shows "active_panels st' \<le> 1"
proof -
  have "payload_ok a" using assms(2) payload_ok_step by blast
  with assms(1) obtain c p where "payload a = Modal_payload c p"
    by (auto simp: payload_ok_def is_modal_payload_def split: payload.splits)
  with assms show ?thesis
    by (auto simp: reducer_OPEN_MODAL panel_defs split: option.splits)
qed

lemma close_step_at_most_one:
  assumes "type a = ''CLOSE_CART'' \<or> type a = ''CLOSE_DESKTOP_MENU'' \<or> type a = ''CLOSE_MOBILE_MENU''
           \<or> type a = ''CLOSE_SEARCH'' \<or> type a = ''CLOSE_MODAL''"
    and "reducer st a = Inr st'" and "active_panels st \<le> 1"
  shows "active_panels st' \<le> 1"
  using assms
  by (auto simp: reducer_CLOSE_CART reducer_CLOSE_DESKTOP_MENU reducer_CLOSE_MOBILE_MENU
      reducer_CLOSE_SEARCH reducer_CLOSE_MODAL panel_defs split: if_splits option.splits)

lemma bool_payload_step_panels:
  assumes "type a = ''TOGGLE_PROMOBAR'' \<or> type a = ''TOGGLE_IFRAMES_HIDDEN''
           \<or> type a = ''SET_IS_CART_READY'' \<or> type a = ''SET_IS_HYDRATED''"
    and "reducer st a = Inr st'"
  shows "panel_indicators st' = panel_indicators st"
proof -
  have "payload_ok a" using assms(2) payload_ok_step by blast
  with assms(1) obtain b where "payload a = Bool_payload b"
    by (auto simp: payload_ok_def is_bool_payload_def split: payload.splits)
  with assms show ?thesis
    by (auto simp: reducer_TOGGLE_PROMOBAR reducer_TOGGLE_IFRAMES_HIDDEN
        reducer_SET_IS_CART_READY reducer_SET_IS_HYDRATED panel_indicators_def
        modal_has_content_def)
qed

lemma customer_step_panels:
  assumes "type a = ''SET_PREVIEW_MODE_CUSTOMER''" and "reducer st a = Inr st'"
  shows "panel_indicators st' = panel_indicators st"
proof -
  have "payload_ok a" using assms(2) payload_ok_step by blast
  with assms(1) obtain c where "payload a = Customer_payload c"
    by (auto simp: payload_ok_def is_customer_payload_def split: payload.splits)
  with assms show ?thesis
    by (auto simp: reducer_SET_PREVIEW_MODE_CUSTOMER panel_indicators_def modal_has_content_def)
qed

lemma reducer_keeps_at_most_one:
  assumes r: "reducer st a = Inr st'" and inv: "active_panels st \<le> 1"
  shows "active_panels st' \<le> 1"
proof -
  have "type a \<in> set action_kinds" using r payload_ok_step by blast
  then consider
      (open_panel) "type a = ''OPEN_CART'' \<or> type a = ''OPEN_DESKTOP_MENU'' \<or>
         type a = ''OPEN_MOBILE_MENU'' \<or> type a = ''OPEN_SEARCH'' \<or> type a = ''CLOSE_ALL''"
    | (open_modal) "type a = ''OPEN_MODAL''"
    | (close_panel) "type a = ''CLOSE_CART'' \<or> type a = ''CLOSE_DESKTOP_MENU'' \<or>
         type a = ''CLOSE_MOBILE_MENU'' \<or> type a = ''CLOSE_SEARCH'' \<or> type a = ''CLOSE_MODAL''"
    | (set_flag) "type a = ''TOGGLE_PROMOBAR'' \<or> type a = ''TOGGLE_IFRAMES_HIDDEN'' \<or>
         type a = ''SET_IS_CART_READY'' \<or> type a = ''SET_IS_HYDRATED''"
    | (set_customer) "type a = ''SET_PREVIEW_MODE_CUSTOMER''"
    unfolding action_kinds_def by auto
  then show ?thesis
  proof cases
    case open_panel
    then show ?thesis using r by (rule open_step_at_most_one)
  next
    case open_modal
    then show ?thesis using r by (rule open_modal_step_at_most_one)
  next
    case close_panel
    then show ?thesis using r inv by (rule close_step_at_most_one)
  next
    case set_flag
    then have "panel_indicators st' = panel_indicators st"
      using r by (rule bool_payload_step_panels)
    with inv show ?thesis by (simp add: active_panels_def)
  next
    case set_customer
    then have "panel_indicators st' = panel_indicators st"
      using r by (rule customer_step_panels)
    with inv show ?thesis by (simp add: active_panels_def)
  qed
qed

lemma initial_state_fields:
  "cartOpen (initial_state s p c) = False"
  "desktopMenuOpen (initial_state s p c) = False"
  "iframesHidden (initial_state s p c) = False"
  "mobileMenuOpen (initial_state s p c) = False"
  "modal (initial_state s p c) = cleared_modal"
  "promobarOpen (initial_state s p c) = True"
  "searchOpen (initial_state s p c) = False"
  "previewModeCustomer (initial_state s p c) = Undefined"
  "isHydrated (initial_state s p c) = False"
  "settings (initial_state s p c) = s"
  "isPreviewModeEnabled (initial_state s p c) = p"
  "isCartReady (initial_state s p c) = cartIsIdle c"
  by (simp_all add: initial_state_def globalState_def GlobalDefaults.defs GlobalState.defs)

lemma initial_state_no_panel: "active_panels (initial_state s p c) = 0"
  by (simp add: panel_defs initial_state_fields)

lemma reducer_steps_at_most_one:
  "active_panels st \<le> 1 \<Longrightarrow> \<forall>st' \<in> set (reducer_steps st as). active_panels st' \<le> 1"
proof (induction as arbitrary: st)
  case Nil
  show ?case by simp
next
  case (Cons a as)
  show ?case
  proof (cases "reducer st a")
    case (Inl e)
    then show ?thesis by simp
  next
    case (Inr st1)
    from Inr Cons.prems have "active_panels st1 \<le> 1" by (rule reducer_keeps_at_most_one)
    with Cons.IH [of st1] Inr show ?thesis by simp
  qed
qed

text \<open>
  Claim C1. Whatever actions are dispatched one after the other from the initial state,
  every state that a reducer step returns has at most one of the five panel indicators
  active: the four flags \<open>cartOpen\<close>, \<open>desktopMenuOpen\<close>, \<open>mobileMenuOpen\<close>,
  \<open>searchOpen\<close> and "the modal has content".
\<close>

theorem at_most_one_panel_invariant:
  "\<forall>st \<in> set (reducer_steps (initial_state s p c) as). active_panels st \<le> 1"
  by (rule reducer_steps_at_most_one) (simp add: initial_state_no_panel)

theorem at_most_one_panel_invariant_witness:
  "reducer_steps (initial_state () False ''idle'' :: sample_state)
      [openCart, openModal (Some ''hello'') None, togglePromobar False, openSearch, closeSearch] \<noteq> [] \<and>
   active_panels (last (reducer_steps (initial_state () False ''idle'' :: sample_state)
      [openCart, openModal (Some ''hello'') None, togglePromobar False, openSearch, closeSearch]))
     \<le> 1"
proof -
  have ne: "reducer_steps (initial_state () False ''idle'' :: sample_state)
      [openCart, openModal (Some ''hello'') None, togglePromobar False, openSearch, closeSearch] \<noteq> []"
    by (simp add: openCart_def reducer_OPEN_CART)
  note m = last_in_set [OF ne]
  note c = at_most_one_panel_invariant [THEN bspec, OF m]
  show ?thesis
    by (intro conjI) (fact ne c)+
qed

section \<open>Opening and closing panels\<close>

text \<open>
  Claim C2. From any state, one reducer step for \<open>OPEN_CART\<close>, \<open>OPEN_DESKTOP_MENU\<close>,
  \<open>OPEN_MOBILE_MENU\<close> or \<open>OPEN_SEARCH\<close> returns a state in which the panel of the
  action is open, the three other flags are false and the modal is cleared; one step for
  \<open>OPEN_MODAL\<close> returns a state with all four flags false and the modal set to the
  payload.
\<close>

theorem open_closes_others:
  "(type a = ''OPEN_CART'' \<longrightarrow>
      (\<exists>st'. reducer st a = Inr st' \<and> cartOpen st' \<and> \<not> desktopMenuOpen st' \<and>
         \<not> mobileMenuOpen st' \<and> \<not> searchOpen st' \<and>
         modal st' = \<lparr>children = None, props = Map.empty\<rparr>)) \<and>
   (type a = ''OPEN_DESKTOP_MENU'' \<longrightarrow>
      (\<exists>st'. reducer st a = Inr st' \<and> desktopMenuOpen st' \<and> \<not> cartOpen st' \<and>
         \<not> mobileMenuOpen st' \<and> \<not> searchOpen st' \<and>
         modal st' = \<lparr>children = None, props = Map.empty\<rparr>)) \<and>
   (type a = ''OPEN_MOBILE_MENU'' \<longrightarrow>
      (\<exists>st'. reducer st a = Inr st' \<and> mobileMenuOpen st' \<and> \<not> cartOpen st' \<and>
         \<not> desktopMenuOpen st' \<and> \<not> searchOpen st' \<and>
         modal st' = \<lparr>children = None, props = Map.empty\<rparr>)) \<and>
   (type a = ''OPEN_SEARCH'' \<longrightarrow>
      (\<exists>st'. reducer st a = Inr st' \<and> searchOpen st' \<and> \<not> cartOpen st' \<and>
         \<not> desktopMenuOpen st' \<and> \<not> mobileMenuOpen st' \<and>
         modal st' = \<lparr>children = None, props = Map.empty\<rparr>)) \<and>
   (type a = ''OPEN_MODAL'' \<and> payload a = Modal_payload c p \<longrightarrow>
      (\<exists>st'. reducer st a = Inr st' \<and> \<not> cartOpen st' \<and> \<not> desktopMenuOpen st' \<and>
         \<not> mobileMenuOpen st' \<and> \<not> searchOpen st' \<and>
         modal st' = \<lparr>children = c, props = spread_props p\<rparr>))"
  by (simp add: reducer_OPEN_CART reducer_OPEN_DESKTOP_MENU reducer_OPEN_MOBILE_MENU
      reducer_OPEN_SEARCH reducer_OPEN_MODAL cleared_modal_def)

theorem open_closes_others_witness:
  "type (openCart :: sample_action) = ''OPEN_CART'' \<and>
   (\<exists>st'. reducer sample_state openCart = Inr st' \<and> cartOpen st' \<and> \<not> desktopMenuOpen st' \<and>
      \<not> mobileMenuOpen st' \<and> \<not> searchOpen st' \<and>
      modal st' = \<lparr>children = None, props = Map.empty\<rparr>) \<and>
   type (openModal (Some ''hello'') None :: sample_action) = ''OPEN_MODAL'' \<and>
   payload (openModal (Some ''hello'') None :: sample_action) = Modal_payload (Some ''hello'') None \<and>
   (\<exists>st'. reducer sample_state (openModal (Some ''hello'') None) = Inr st' \<and> \<not> cartOpen st' \<and>
      \<not> desktopMenuOpen st' \<and> \<not> mobileMenuOpen st' \<and> \<not> searchOpen st' \<and>
      modal st' = \<lparr>children = Some ''hello'', props = spread_props None\<rparr>)"
proof -
  have t1: "type (openCart :: sample_action) = ''OPEN_CART''"
    by (simp add: openCart_def)
  have t2: "type (openModal (Some ''hello'') None :: sample_action) = ''OPEN_MODAL''"
    by (simp add: openModal_def)
  have t3: "payload (openModal (Some ''hello'') None :: sample_action)
      = Modal_payload (Some ''hello'') None"
    by (simp add: openModal_def)
  note o = open_closes_others [where st = sample_state]
  note c1 = o [THEN conjunct1, THEN mp, OF t1]
  note c2 = o [THEN conjunct2, THEN conjunct2, THEN conjunct2, THEN conjunct2, THEN mp,
      OF conjI, OF t2 t3]
  show ?thesis
    by (intro conjI) (fact t1 t2 t3 c1 c2)+
qed

text \<open>
  Claim C4. \<open>CLOSE_CART\<close>, \<open>CLOSE_DESKTOP_MENU\<close>, \<open>CLOSE_MOBILE_MENU\<close> and
  \<open>CLOSE_SEARCH\<close> set their own flag to false and leave every other field as it was,
  the modal and the sibling flags included; \<open>CLOSE_MODAL\<close> clears the modal and leaves
  every other field as it was.
\<close>

theorem close_only_own_flag:
  "(type a = ''CLOSE_CART'' \<longrightarrow>
      (\<exists>st'. reducer st a = Inr st' \<and> \<not> cartOpen st' \<and>
         desktopMenuOpen st' = desktopMenuOpen st \<and> mobileMenuOpen st' = mobileMenuOpen st \<and>
         searchOpen st' = searchOpen st \<and> modal st' = modal st \<and>
         non_panel_fields st' = non_panel_fields st)) \<and>
   (type a = ''CLOSE_DESKTOP_MENU'' \<longrightarrow>
      (\<exists>st'. reducer st a = Inr st' \<and> \<not> desktopMenuOpen st' \<and>
         cartOpen st' = cartOpen st \<and> mobileMenuOpen st' = mobileMenuOpen st \<and>
         searchOpen st' = searchOpen st \<and> modal st' = modal st \<and>
         non_panel_fields st' = non_panel_fields st)) \<and>
   (type a = ''CLOSE_MOBILE_MENU'' \<longrightarrow>
      (\<exists>st'. reducer st a = Inr st' \<and> \<not> mobileMenuOpen st' \<and>
         cartOpen st' = cartOpen st \<and> desktopMenuOpen st' = desktopMenuOpen st \<and>
         searchOpen st' = searchOpen st \<and> modal st' = modal st \<and>
         non_panel_fields st' = non_panel_fields st)) \<and>
   (type a = ''CLOSE_SEARCH'' \<longrightarrow>
      (\<exists>st'. reducer st a = Inr st' \<and> \<not> searchOpen st' \<and>
         cartOpen st' = cartOpen st \<and> desktopMenuOpen st' = desktopMenuOpen st \<and>
         mobileMenuOpen st' = mobileMenuOpen st \<and> modal st' = modal st \<and>
         non_panel_fields st' = non_panel_fields st)) \<and>
   (type a = ''CLOSE_MODAL'' \<longrightarrow>
      (\<exists>st'. reducer st a = Inr st' \<and> modal st' = \<lparr>children = None, props = Map.empty\<rparr> \<and>
         cartOpen st' = cartOpen st \<and> desktopMenuOpen st' = desktopMenuOpen st \<and>
         mobileMenuOpen st' = mobileMenuOpen st \<and> searchOpen st' = searchOpen st \<and>
         non_panel_fields st' = non_panel_fields st))"
  by (simp add: reducer_CLOSE_CART reducer_CLOSE_DESKTOP_MENU reducer_CLOSE_MOBILE_MENU
      reducer_CLOSE_SEARCH reducer_CLOSE_MODAL cleared_modal_def non_panel_fields_def)

theorem close_only_own_flag_witness:
  "type (closeCart :: sample_action) = ''CLOSE_CART'' \<and>
   (\<exists>st'. reducer sample_state closeCart = Inr st' \<and> \<not> cartOpen st' \<and>
      desktopMenuOpen st' = desktopMenuOpen sample_state \<and>
      mobileMenuOpen st' = mobileMenuOpen sample_state \<and>
      searchOpen st' = searchOpen sample_state \<and> modal st' = modal sample_state \<and>
      non_panel_fields st' = non_panel_fields sample_state) \<and>
   type (closeModal :: sample_action) = ''CLOSE_MODAL'' \<and>
   (\<exists>st'. reducer sample_state closeModal = Inr st' \<and>
      modal st' = \<lparr>children = None, props = Map.empty\<rparr> \<and>
      cartOpen st' = cartOpen sample_state \<and>
      desktopMenuOpen st' = desktopMenuOpen sample_state \<and>
      mobileMenuOpen st' = mobileMenuOpen sample_state \<and>
      searchOpen st' = searchOpen sample_state \<and>
      non_panel_fields st' = non_panel_fields sample_state)"
proof -
  have t1: "type (closeCart :: sample_action) = ''CLOSE_CART''"
    by (simp add: closeCart_def)
  have t2: "type (closeModal :: sample_action) = ''CLOSE_MODAL''"
    by (simp add: closeModal_def)
  note o = close_only_own_flag [where st = sample_state]
  note c1 = o [THEN conjunct1, THEN mp, OF t1]
  note c2 = o [THEN conjunct2, THEN conjunct2, THEN conjunct2, THEN conjunct2, THEN mp, OF t2]
  show ?thesis
    by (intro conjI) (fact t1 t2 c1 c2)+
qed

text \<open>
  Claim C5. From any state, \<open>CLOSE_ALL\<close> returns a state with the four panel flags
  false and the modal cleared to \<open>{children: null, props: {}}\<close>; the fields that are
  not panel fields are unchanged.
\<close>

theorem close_all_resets:
  "type a = ''CLOSE_ALL'' \<Longrightarrow>
     \<exists>st'. reducer st a = Inr st' \<and> \<not> cartOpen st' \<and> \<not> desktopMenuOpen st' \<and>
        \<not> mobileMenuOpen st' \<and> \<not> searchOpen st' \<and>
        modal st' = \<lparr>children = None, props = Map.empty\<rparr> \<and>
        non_panel_fields st' = non_panel_fields st"
  by (simp add: reducer_CLOSE_ALL cleared_modal_def non_panel_fields_def)

theorem close_all_resets_witness:
  "type (closeAll :: sample_action) = ''CLOSE_ALL'' \<and>
   (\<exists>st'. reducer sample_search_state closeAll = Inr st' \<and> \<not> cartOpen st' \<and>
      \<not> desktopMenuOpen st' \<and> \<not> mobileMenuOpen st' \<and> \<not> searchOpen st' \<and>
      modal st' = \<lparr>children = None, props = Map.empty\<rparr> \<and>
      non_panel_fields st' = non_panel_fields sample_search_state)"
proof -
  have t: "type (closeAll :: sample_action) = ''CLOSE_ALL''"
    by (simp add: closeAll_def)
  note c = close_all_resets [OF t, of sample_search_state]
  show ?thesis
    by (intro conjI) (fact t c)+
qed

text \<open>
  Claim C6. For every content \<open>C\<close> and props mapping \<open>P\<close>, after
  \<open>openModal(C, P)\<close> the state has \<open>modal = {children: C, props: P}\<close> and the four
  panel flags false.
\<close>

theorem open_modal_then_read:
  "\<exists>st'. dispatch st (openModal C (Some P)) = (None, st') \<and>
      modal st' = \<lparr>children = C, props = P\<rparr> \<and>
      \<not> cartOpen st' \<and> \<not> desktopMenuOpen st' \<and> \<not> mobileMenuOpen st' \<and> \<not> searchOpen st'"
  by (simp add: dispatch_def openModal_def reducer_OPEN_MODAL spread_props_def)

theorem open_modal_then_read_witness:
  "\<exists>st'. dispatch sample_state (openModal (Some ''hello'') (Some [''size'' \<mapsto> 3])) = (None, st') \<and>
      modal st' = \<lparr>children = Some ''hello'', props = [''size'' \<mapsto> 3]\<rparr> \<and>
      \<not> cartOpen st' \<and> \<not> desktopMenuOpen st' \<and> \<not> mobileMenuOpen st' \<and> \<not> searchOpen st'"
  by (rule open_modal_then_read)

section \<open>Unrecognised actions\<close>






section \<open>The initial state and the effects\<close>

text \<open>
  Claim C10. The state built at mount has the four panel flags false, the modal cleared,
  \<open>promobarOpen\<close> true, \<open>iframesHidden\<close> and \<open>isHydrated\<close> false,
  \<open>previewModeCustomer\<close> undefined and \<open>isCartReady\<close> equal to "the cart status is
  idle"; so it has at most one active panel indicator.
\<close>

theorem initial_state_at_mount:
  fixes s :: 's and st0 :: "('n, 'v, 'k, 's) GlobalState"
  assumes "st0 = initial_state s p c"
  shows "\<not> cartOpen st0 \<and> \<not> desktopMenuOpen st0 \<and> \<not> mobileMenuOpen st0 \<and> \<not> searchOpen st0 \<and>
     modal st0 = \<lparr>children = None, props = Map.empty\<rparr> \<and>
     promobarOpen st0 \<and> \<not> iframesHidden st0 \<and> \<not> isHydrated st0 \<and>
     previewModeCustomer st0 = Undefined \<and>
     isCartReady st0 = (c = ''idle'') \<and>
     active_panels st0 \<le> 1"
  using assms
  by (simp add: initial_state_fields initial_state_no_panel cleared_modal_def cartIsIdle_def)

theorem initial_state_at_mount_witness:
  "(initial_state () True ''idle'' :: sample_state) = initial_state () True ''idle'' \<and>
   isCartReady (initial_state () True ''idle'' :: sample_state) = (''idle'' = ''idle'') \<and>
   promobarOpen (initial_state () True ''idle'' :: sample_state) \<and>
   active_panels (initial_state () True ''idle'' :: sample_state) \<le> 1"
proof -
  have e: "(initial_state () True ''idle'' :: sample_state) = initial_state () True ''idle''"
    by (rule refl)
  note c = initial_state_at_mount [OF e]
  show ?thesis
    using e c by blast
qed

lemma dispatch_setIsCartReady:
  "snd (dispatch st (setIsCartReady b)) = st\<lparr>isCartReady := b\<rparr>"
  by (simp add: dispatch_def setIsCartReady_sets_flag)

lemma fire_append: "fire (xs @ ys) st = fire ys (fire xs st)"
  by (induction xs st rule: fire.induct) simp_all

lemma run_cart_ready_effect_idle:
  "idle \<Longrightarrow> \<not> isCartReady (store p) \<Longrightarrow>
     run_cart_ready_effect idle p = p\<lparr>store := (store p)\<lparr>isCartReady := True\<rparr>\<rparr>"
  by (simp add: run_cart_ready_effect_def cart_ready_effect_def perform_def
      dispatch_setIsCartReady)

lemma run_cart_ready_effect_fallback:
  assumes "\<not> (idle \<and> \<not> isCartReady (store p))"
  shows "run_cart_ready_effect idle p =
       p\<lparr>timers := timers p @ [(now p + 1000, setIsCartReady True)]\<rparr>"
proof -
  from assms have "cart_ready_effect idle (store p) = Set_timeout (setIsCartReady True) 1000"
    by (rule cart_ready_effect_fallback)
  then show ?thesis
    by (simp add: run_cart_ready_effect_def perform_def)
qed

lemma fallback_fires_when_due:
  "isCartReady (store (advance (now p + d)
      (p\<lparr>timers := timers p @ [(now p + d, setIsCartReady True)]\<rparr>)))"
  by (simp add: advance_def fire_append dispatch_setIsCartReady)

lemma fallback_pending_before_due:
  assumes "t < now p + d"
  shows "(now p + d, a) \<in> set (timers (advance t (p\<lparr>timers := timers p @ [(now p + d, a)]\<rparr>)))"
    and "store (advance t (p\<lparr>timers := timers p @ [(now p + d, a)]\<rparr>)) = store (advance t p)"
  using assms by (simp_all add: advance_def)

text \<open>
  Claim C7, on the logical clock of the model. When the cart-ready effect runs with the
  cart idle, \<open>isCartReady\<close> is true as soon as the effect has run, so no later than
  1000 ms after the cart became idle. The effect dispatches \<open>SET_IS_CART_READY(true)\<close>
  at once exactly when the cart is idle and \<open>isCartReady\<close> is not yet true; in every
  other case, in particular as long as the cart is not idle, it changes nothing at once
  and schedules that dispatch to be due exactly 1000 ms after the run: the callback is
  still pending, and the state is what it would be without it, at every time before
  that, and \<open>isCartReady\<close> is true once the clock has reached it.
\<close>

theorem cart_ready_within_fallback:
  "(idle \<longrightarrow> isCartReady (store (run_cart_ready_effect idle p))) \<and>
   (idle \<and> \<not> isCartReady (store p) \<longrightarrow>
      run_cart_ready_effect idle p = p\<lparr>store := (store p)\<lparr>isCartReady := True\<rparr>\<rparr>) \<and>
   (\<not> (idle \<and> \<not> isCartReady (store p)) \<longrightarrow>
      run_cart_ready_effect idle p =
        p\<lparr>timers := timers p @ [(now p + 1000, setIsCartReady True)]\<rparr> \<and>
      isCartReady (store (advance (now p + 1000) (run_cart_ready_effect idle p))) \<and>
      (\<forall>t < now p + 1000.
         (now p + 1000, setIsCartReady True)
           \<in> set (timers (advance t (run_cart_ready_effect idle p))) \<and>
         store (advance t (run_cart_ready_effect idle p)) = store (advance t p)))"
proof (intro conjI impI allI)
  show "isCartReady (store (run_cart_ready_effect idle p))" if idle
  proof (cases "isCartReady (store p)")
    case True
    then show ?thesis by (simp add: run_cart_ready_effect_fallback)
  next
    case False
    with that show ?thesis by (simp add: run_cart_ready_effect_idle)
  qed
  show "run_cart_ready_effect idle p = p\<lparr>store := (store p)\<lparr>isCartReady := True\<rparr>\<rparr>"
    if "idle \<and> \<not> isCartReady (store p)"
    using that by (simp add: run_cart_ready_effect_idle)
  assume f: "\<not> (idle \<and> \<not> isCartReady (store p))"
  then show r: "run_cart_ready_effect idle p =
      p\<lparr>timers := timers p @ [(now p + 1000, setIsCartReady True)]\<rparr>"
    by (rule run_cart_ready_effect_fallback)
  show "isCartReady (store (advance (now p + 1000) (run_cart_ready_effect idle p)))"
    unfolding r by (rule fallback_fires_when_due)
  fix t assume "t < now p + 1000"
  then show "(now p + 1000, setIsCartReady True)
      \<in> set (timers (advance t (run_cart_ready_effect idle p)))"
    and "store (advance t (run_cart_ready_effect idle p)) = store (advance t p)"
    unfolding r by (rule fallback_pending_before_due)+
qed

theorem cart_ready_within_fallback_witness:
  "run_cart_ready_effect False sample_provider =
     sample_provider\<lparr>timers := timers sample_provider
        @ [(now sample_provider + 1000, setIsCartReady True)]\<rparr> \<and>
   isCartReady (store (advance (now sample_provider + 1000)
     (run_cart_ready_effect False sample_provider))) \<and>
   (now sample_provider + 1000, setIsCartReady True)
     \<in> set (timers (advance 900 (run_cart_ready_effect False sample_provider))) \<and>
   store (advance 900 (run_cart_ready_effect False sample_provider))
     = store (advance 900 sample_provider) \<and>
   isCartReady (store (run_cart_ready_effect True sample_provider)) \<and>
   run_cart_ready_effect True sample_provider =
     sample_provider\<lparr>store := (store sample_provider)\<lparr>isCartReady := True\<rparr>\<rparr>"
proof -
  have n: "\<not> isCartReady (store sample_provider)"
    by (simp add: sample_provider_def initial_state_fields cartIsIdle_def)
  have f: "\<not> (False \<and> \<not> isCartReady (store sample_provider))"
    by simp
  have i: "True \<and> \<not> isCartReady (store sample_provider)"
    using n by simp
  have l: "900 < now sample_provider + 1000"
    by (simp add: sample_provider_def)
  note w = cart_ready_within_fallback [of False sample_provider]
  note v = cart_ready_within_fallback [of True sample_provider]
  note c = w [THEN conjunct2, THEN conjunct2, THEN mp, OF f]
  note b = c [THEN conjunct2, THEN conjunct2, THEN spec, THEN mp, OF l]
  note a1 = v [THEN conjunct1, THEN mp, OF TrueI]
  note a2 = v [THEN conjunct2, THEN conjunct1, THEN mp, OF i]
  show ?thesis
    by (intro conjI)
      (fact c [THEN conjunct1] c [THEN conjunct2, THEN conjunct1]
        b [THEN conjunct1] b [THEN conjunct2] a1 a2)+
qed

text \<open>
  Claim C8. In a state that is already hydrated, \<open>SET_IS_HYDRATED(true)\<close> returns the
  same state; and once the hydration effect has run, with its empty dependency array, a
  later render dispatches nothing from it, whatever the states are.
\<close>

theorem hydration_idempotent:
  "(isHydrated st \<longrightarrow> reducer st (setIsHydrated True) = Inr st) \<and>
   fst (run_hydration_effect (snd (run_hydration_effect prev st0)) st1) = []"
  by (simp add: setIsHydrated_def reducer_SET_IS_HYDRATED run_hydration_effect_def
      deps_changed_def)

theorem hydration_idempotent_witness:
  "isHydrated sample_state \<and>
   reducer sample_state (setIsHydrated True) = Inr sample_state \<and>
   fst (run_hydration_effect
          (snd (run_hydration_effect None (initial_state () False ''idle'' :: sample_state)))
          sample_state) = ([] :: sample_action list)"
proof -
  have h: "isHydrated sample_state" by (simp add: sample_state_def)
  note i = hydration_idempotent [of sample_state None
      "initial_state () False ''idle'' :: sample_state" sample_state]
  note c1 = i [THEN conjunct1, THEN mp, OF h]
  note c2 = i [THEN conjunct2]
  show ?thesis
    by (intro conjI) (fact h c1 c2)+
qed

lemma iframe_effect_nth:
  assumes "i < length doc"
  shows "iframe_effect st doc ! i =
     (if \<not> isHydrated st then doc ! i
      else if iframesShouldBeHidden st then hide_iframe (doc ! i) else show_iframe (doc ! i))"
  using assms by (simp add: iframe_effect_def)

lemma hide_iframe_marked: "is_iframe e \<Longrightarrow> hidden_marker (hide_iframe e)"
  by (simp add: hide_iframe_def hidden_marker_def classList_add_def)

lemma show_iframe_unmarked: "is_iframe e \<Longrightarrow> \<not> hidden_marker (show_iframe e)"
  by (simp add: show_iframe_def hidden_marker_def classList_remove_def)

lemma hide_show_frame:
  "localName (hide_iframe e) = localName e" "localName (show_iframe e) = localName e"
  "\<not> is_iframe e \<Longrightarrow> hide_iframe e = e" "\<not> is_iframe e \<Longrightarrow> show_iframe e = e"
  by (simp_all add: hide_iframe_def show_iframe_def)

lemma run_iframe_effect_marks:
  "(\<not> isHydrated st \<longrightarrow> fst (run_iframe_effect prev st doc) = doc) \<and>
   (\<not> deps_changed prev [iframesShouldBeHidden st] \<longrightarrow> fst (run_iframe_effect prev st doc) = doc) \<and>
   (isHydrated st \<and> deps_changed prev [iframesShouldBeHidden st] \<longrightarrow>
      length (fst (run_iframe_effect prev st doc)) = length doc \<and>
      (\<forall>i < length doc.
         localName (fst (run_iframe_effect prev st doc) ! i) = localName (doc ! i) \<and>
         (is_iframe (doc ! i) \<longrightarrow>
            hidden_marker (fst (run_iframe_effect prev st doc) ! i) = iframesShouldBeHidden st) \<and>
         (\<not> is_iframe (doc ! i) \<longrightarrow> fst (run_iframe_effect prev st doc) ! i = doc ! i)))"
proof (intro conjI impI)
  show "fst (run_iframe_effect prev st doc) = doc" if "\<not> isHydrated st"
    using that by (simp add: run_iframe_effect_def iframe_effect_def)
  show "fst (run_iframe_effect prev st doc) = doc" if "\<not> deps_changed prev [iframesShouldBeHidden st]"
    using that by (simp add: run_iframe_effect_def)
  assume h: "isHydrated st \<and> deps_changed prev [iframesShouldBeHidden st]"
  then have eq: "fst (run_iframe_effect prev st doc) = iframe_effect st doc"
    by (simp add: run_iframe_effect_def)
  show "length (fst (run_iframe_effect prev st doc)) = length doc"
    using h by (simp add: eq iframe_effect_def)
  show "\<forall>i < length doc.
         localName (fst (run_iframe_effect prev st doc) ! i) = localName (doc ! i) \<and>
         (is_iframe (doc ! i) \<longrightarrow>
            hidden_marker (fst (run_iframe_effect prev st doc) ! i) = iframesShouldBeHidden st) \<and>
         (\<not> is_iframe (doc ! i) \<longrightarrow> fst (run_iframe_effect prev st doc) ! i = doc ! i)"
    using h
    by (simp add: eq iframe_effect_nth hide_show_frame hide_iframe_marked show_iframe_unmarked)
qed

text \<open>
  Claim C9. The iframe effect changes nothing while the state is not hydrated, and runs
  only when the derived flag \<open>iframesHidden \<or> mobileMenuOpen \<or> searchOpen\<close> differs
  from that of the render before. When it runs in a hydrated state, the document keeps
  its elements, every \<open>iframe\<close> element carries the class \<open>!invisible\<close> exactly when
  \<open>iframesHidden \<or> mobileMenuOpen \<or> searchOpen\<close> holds, and no other element is
  touched.
\<close>

theorem iframe_effect_reflects_flag:
  "(\<not> isHydrated st \<longrightarrow> fst (run_iframe_effect prev st doc) = doc) \<and>
   (\<not> deps_changed prev [iframesHidden st \<or> mobileMenuOpen st \<or> searchOpen st] \<longrightarrow>
      fst (run_iframe_effect prev st doc) = doc) \<and>
   (isHydrated st \<and> deps_changed prev [iframesHidden st \<or> mobileMenuOpen st \<or> searchOpen st] \<longrightarrow>
      length (fst (run_iframe_effect prev st doc)) = length doc \<and>
      (\<forall>i < length doc.
         localName (fst (run_iframe_effect prev st doc) ! i) = localName (doc ! i) \<and>
         (localName (doc ! i) = ''iframe'' \<longrightarrow>
            (''!invisible'' \<in> set (classList (fst (run_iframe_effect prev st doc) ! i)))
              = (iframesHidden st \<or> mobileMenuOpen st \<or> searchOpen st)) \<and>
         (localName (doc ! i) \<noteq> ''iframe'' \<longrightarrow>
            fst (run_iframe_effect prev st doc) ! i = doc ! i)))"
  using run_iframe_effect_marks [of st prev doc]
  unfolding iframesShouldBeHidden_def is_iframe_def hidden_marker_def .

theorem iframe_effect_reflects_flag_witness:
  "length (fst (run_iframe_effect (Some [False]) sample_search_state sample_document))
     = length sample_document \<and>
   (''!invisible'' \<in> set (classList
       (fst (run_iframe_effect (Some [False]) sample_search_state sample_document) ! 1)))
     = (iframesHidden sample_search_state \<or> mobileMenuOpen sample_search_state \<or>
        searchOpen sample_search_state) \<and>
   fst (run_iframe_effect (Some [False]) sample_search_state sample_document) ! 0
     = sample_document ! 0 \<and>
   searchOpen sample_search_state \<and>
   localName (sample_document ! 1) = ''iframe''"
proof -
  have h: "isHydrated sample_search_state"
    by (simp add: sample_search_state_def sample_state_def)
  have f: "searchOpen sample_search_state"
    by (simp add: sample_search_state_def)
  have d: "deps_changed (Some [False])
      [iframesHidden sample_search_state \<or> mobileMenuOpen sample_search_state \<or>
       searchOpen sample_search_state]"
    using f by (simp add: deps_changed_def)
  have l1: "1 < length sample_document" and l0: "0 < length sample_document"
    by (simp_all add: sample_document_def)
  have i1: "localName (sample_document ! 1) = ''iframe''"
    by (simp add: sample_document_def)
  have i0: "localName (sample_document ! 0) \<noteq> ''iframe''"
    by (simp add: sample_document_def)
  note r = iframe_effect_reflects_flag [of sample_search_state "Some [False]" sample_document]
  note c = r [THEN conjunct2, THEN conjunct2, THEN mp, OF conjI, OF h d]
  note e1 = c [THEN conjunct2, THEN spec, THEN mp, OF l1]
  note e0 = c [THEN conjunct2, THEN spec, THEN mp, OF l0]
  note m1 = e1 [THEN conjunct2, THEN conjunct1, THEN mp, OF i1]
  note m0 = e0 [THEN conjunct2, THEN conjunct2, THEN mp, OF i0]
  show ?thesis
    by (intro conjI) (fact f i1 m1 m0 c [THEN conjunct1])+
qed

end
